theory Spec2Isabelle
  imports Complex_Main
begin

section \<open>Python's Decimal, as the formula functions use it\<close>

text \<open>
  The functions of \<^verbatim>\<open>core/petroleum.py\<close> take and return values of Python's
  \<^verbatim>\<open>decimal.Decimal\<close>. A finite Decimal is a triple of a sign, an unbounded
  coefficient and an exponent (the fields \<^verbatim>\<open>_sign\<close>, \<^verbatim>\<open>_int\<close>,
  \<^verbatim>\<open>_exp\<close>), and stands for the number \<open>(-1)^sign * coefficient * 10^exponent\<close>.
  The operators \<^verbatim>\<open>+\<close>, \<^verbatim>\<open>-\<close>, \<^verbatim>\<open>*\<close>, \<^verbatim>\<open>/\<close> round their
  result to the precision of the arithmetic context and raise when the result leaves the
  exponent range. The repository never changes the context, so the model fixes Python's
  default one: 28 significant digits, rounding half to even, exponents between -999999 and
  999999, no clamping, and the traps InvalidOperation, DivisionByZero and Overflow.

  The model covers the finite Decimals; the infinities and NaNs are not values of the type
  \<open>decimal\<close> below.
\<close>

datatype decimal = Decimal (d_sign: bool) (d_int: nat) (d_exp: int)

text \<open>The number a Decimal stands for.\<close>

definition dval :: "decimal \<Rightarrow> rat" where
  "dval d = (if d_sign d then - 1 else 1) * of_nat (d_int d) * 10 powi (d_exp d)"

text \<open>The signals of the decimal module. An operation records each signal it meets in
  the flags of the context; the default context traps three of them (InvalidOperation,
  DivisionByZero, Overflow), and a trapped signal is raised as an exception.\<close>

datatype signal =
    Clamped
  | DivisionByZero
  | Inexact
  | InvalidOperation
  | Overflow
  | Rounded
  | Subnormal
  | Underflow

text \<open>The exceptions a call can end in: the repository's own error, which carries the
  name of the parameter and its value, and the trapped signals of the decimal module.\<close>

datatype error =
    InvalidInputError string decimal
  | Signal signal

definition prec :: nat where "prec = 28"
definition Emax :: int where "Emax = 999999"
definition Emin :: int where "Emin = - 999999"

definition Etiny :: int where "Etiny = Emin - int prec + 1"
definition Etop :: int where "Etop = Emax - int prec + 1"

text \<open>\<^verbatim>\<open>len(self._int)\<close>: the number of decimal digits of the coefficient; the
  coefficient 0 is the string \<^verbatim>\<open>'0'\<close>, of length 1.\<close>

fun ndigits :: "nat \<Rightarrow> nat" where
  "ndigits n = (if n < 10 then 1 else Suc (ndigits (n div 10)))"

declare ndigits.simps [simp del]

text \<open>\<^verbatim>\<open>copy_negate\<close> flips the sign, also of a zero.\<close>

definition copy_negate :: "decimal \<Rightarrow> decimal" where
  "copy_negate d = Decimal (\<not> d_sign d) (d_int d) (d_exp d)"

text \<open>
  \<^verbatim>\<open>_round_half_even(self, prec)\<close> decides how to round a coefficient \<open>c\<close> of which
  the first \<open>digits\<close> digits are kept, \<open>0 \<le> digits < len\<close>: 1 is "round away from zero",
  0 is "the dropped digits are all zero", -1 is "truncate, something nonzero is dropped".
  The dropped digits are \<open>c mod 10^k\<close> for \<open>k = len - digits\<close>; they are "exactly half"
  when they read 5 followed by zeros, and the last kept digit is the last digit of
  \<open>c div 10^k\<close>.
\<close>

definition exact_half :: "nat \<Rightarrow> nat \<Rightarrow> bool" where
  "exact_half c digits =
     (let k = ndigits c - digits in c mod 10 ^ k = 5 * 10 ^ (k - 1))"

definition all_zeros :: "nat \<Rightarrow> nat \<Rightarrow> bool" where
  "all_zeros c digits = (let k = ndigits c - digits in c mod 10 ^ k = 0)"

definition round_half_up :: "nat \<Rightarrow> nat \<Rightarrow> int" where
  "round_half_up c digits =
     (let k = ndigits c - digits in
      if 5 \<le> (c div 10 ^ (k - 1)) mod 10 then 1
      else if all_zeros c digits then 0
      else - 1)"

definition round_half_even :: "nat \<Rightarrow> nat \<Rightarrow> int" where
  "round_half_even c digits =
     (if exact_half c digits \<and> (digits = 0 \<or> even (c div 10 ^ (ndigits c - digits)))
      then - 1
      else round_half_up c digits)"

text \<open>
  \<^verbatim>\<open>_fix(self, context)\<close>: bring a result into the context. A zero has its exponent
  clipped into the range; a nonzero value whose adjusted exponent exceeds \<open>Emax\<close> raises
  Overflow; a coefficient with more than \<open>prec\<close> digits (or an exponent below \<open>Etiny\<close>)
  is rounded; anything else is returned as it is.
\<close>

definition dec_fix :: "decimal \<Rightarrow> error + decimal" where
  "dec_fix d =
     (if d_int d = 0 then
        Inr (Decimal (d_sign d) 0 (min (max (d_exp d) Etiny) Emax))
      else
        let exp_min0 = int (ndigits (d_int d)) + d_exp d - int prec in
        if exp_min0 > Etop then Inl (Signal Overflow)
        else
          let exp_min = (if exp_min0 < Etiny then Etiny else exp_min0) in
          if d_exp d < exp_min then
            let digits0 = int (ndigits (d_int d)) + d_exp d - exp_min;
                self = (if digits0 < 0 then Decimal (d_sign d) 1 (exp_min - 1) else d);
                digits = (if digits0 < 0 then 0 else nat digits0);
                changed = round_half_even (d_int self) digits;
                coeff = d_int self div 10 ^ (ndigits (d_int self) - digits);
                coeff1 = (if changed > 0 then coeff + 1 else coeff);
                carry = (changed > 0 \<and> ndigits coeff1 > prec);
                coeff2 = (if carry then coeff1 div 10 else coeff1);
                exp_min2 = (if carry then exp_min + 1 else exp_min)
            in if exp_min2 > Etop then Inl (Signal Overflow)
               else Inr (Decimal (d_sign d) coeff2 exp_min2)
          else Inr d)"

text \<open>
  \<^verbatim>\<open>_rescale(self, exp, rounding)\<close>: the same value at the exponent \<open>expn\<close>, padding
  with zeros or rounding digits away.
\<close>

definition rescale :: "decimal \<Rightarrow> int \<Rightarrow> decimal" where
  "rescale d expn =
     (if d_int d = 0 then Decimal (d_sign d) 0 expn
      else if d_exp d \<ge> expn then
        Decimal (d_sign d) (d_int d * 10 ^ nat (d_exp d - expn)) expn
      else
        let digits0 = int (ndigits (d_int d)) + d_exp d - expn;
            self = (if digits0 < 0 then Decimal (d_sign d) 1 (expn - 1) else d);
            digits = (if digits0 < 0 then 0 else nat digits0);
            changed = round_half_even (d_int self) digits;
            coeff = d_int self div 10 ^ (ndigits (d_int self) - digits)
        in Decimal (d_sign d) (if changed = 1 then coeff + 1 else coeff) expn)"

text \<open>
  \<^verbatim>\<open>_normalize(op1, op2, prec)\<close>: bring two nonzero operands of an addition to one
  exponent. When one operand is too small to matter for the rounded sum it is replaced by
  a single unit at an exponent just below what rounding can see. The result is the two
  coefficients, in the order of the operands, and their common exponent.
\<close>

definition normalize :: "decimal \<Rightarrow> decimal \<Rightarrow> nat \<times> nat \<times> int" where
  "normalize op1 op2 =
     (let swap = (d_exp op1 < d_exp op2);
          tmp = (if swap then op2 else op1);
          other = (if swap then op1 else op2);
          tmp_len = int (ndigits (d_int tmp));
          other_len = int (ndigits (d_int other));
          expn = d_exp tmp + min (- 1) (tmp_len - int prec - 2);
          small = (other_len + d_exp other - 1 < expn);
          other_int = (if small then 1 else d_int other);
          other_exp = (if small then expn else d_exp other);
          tmp_int = d_int tmp * 10 ^ nat (d_exp tmp - other_exp)
      in if swap then (other_int, tmp_int, other_exp) else (tmp_int, other_int, other_exp))"

text \<open>\<^verbatim>\<open>__add__\<close> on finite operands: every branch builds a Decimal and ends
  in \<^verbatim>\<open>ans._fix(context)\<close>. \<open>add_unrounded\<close> is the Decimal before that call.\<close>

definition add_unrounded :: "decimal \<Rightarrow> decimal \<Rightarrow> decimal" where
  "add_unrounded a b =
     (let expn = min (d_exp a) (d_exp b) in
      if d_int a = 0 \<and> d_int b = 0 then
        Decimal (d_sign a \<and> d_sign b) 0 expn
      else if d_int a = 0 then
        rescale b (max expn (d_exp b - int prec - 1))
      else if d_int b = 0 then
        rescale a (max expn (d_exp a - int prec - 1))
      else
        case normalize a b of (int1, int2, e) \<Rightarrow>
          if d_sign a \<noteq> d_sign b then
            if int1 = int2 then Decimal False 0 expn
            else if int1 < int2 then Decimal (d_sign b) (int2 - int1) e
            else Decimal (d_sign a) (int1 - int2) e
          else Decimal (d_sign a) (int1 + int2) e)"

definition dec_add :: "decimal \<Rightarrow> decimal \<Rightarrow> error + decimal" where
  "dec_add a b = dec_fix (add_unrounded a b)"

text \<open>\<^verbatim>\<open>__sub__\<close>: the sum with the negated right operand.\<close>

definition dec_sub :: "decimal \<Rightarrow> decimal \<Rightarrow> error + decimal" where
  "dec_sub a b = dec_add a (copy_negate b)"

text \<open>\<^verbatim>\<open>__mul__\<close>: the product of the coefficients at the sum of the exponents,
  then \<^verbatim>\<open>_fix\<close>. The source's separate branches for a zero operand and for a
  coefficient \<^verbatim>\<open>'1'\<close> build the same triple.\<close>

definition mul_unrounded :: "decimal \<Rightarrow> decimal \<Rightarrow> decimal" where
  "mul_unrounded a b =
     Decimal (d_sign a \<noteq> d_sign b) (d_int a * d_int b) (d_exp a + d_exp b)"

definition dec_mul :: "decimal \<Rightarrow> decimal \<Rightarrow> error + decimal" where
  "dec_mul a b = dec_fix (mul_unrounded a b)"

text \<open>The loop of \<^verbatim>\<open>__truediv__\<close> that moves an exact quotient towards the ideal
  exponent by dropping trailing zeros.\<close>

function to_ideal :: "nat \<Rightarrow> int \<Rightarrow> int \<Rightarrow> nat \<times> int" where
  "to_ideal coeff expn ideal_exp =
     (if expn < ideal_exp \<and> coeff mod 10 = 0
      then to_ideal (coeff div 10) (expn + 1) ideal_exp
      else (coeff, expn))"
  by pat_completeness auto
termination
  by (relation "measure (\<lambda>(coeff, expn, ideal_exp). nat (ideal_exp - expn))") auto

declare to_ideal.simps [simp del]

text \<open>
  \<^verbatim>\<open>__truediv__\<close> on finite operands. A zero divisor raises (through the trap)
  InvalidOperation for 0/0 and DivisionByZero otherwise. The quotient of the coefficients
  is taken with \<open>prec + 1\<close> or \<open>prec + 2\<close> digits; when the division leaves a remainder, a
  last digit 0 or 5 is bumped, so that the rounding in \<open>dec_fix\<close> sees that the value lies
  strictly above. \<open>div_unrounded\<close> is the Decimal the source hands to \<^verbatim>\<open>_fix\<close>, or
  the exception of a zero divisor.
\<close>

definition div_unrounded :: "decimal \<Rightarrow> decimal \<Rightarrow> error + decimal" where
  "div_unrounded a b =
     (let sign = (d_sign a \<noteq> d_sign b) in
      if d_int b = 0 then
        (if d_int a = 0 then Inl (Signal InvalidOperation) else Inl (Signal DivisionByZero))
      else if d_int a = 0 then Inr (Decimal sign 0 (d_exp a - d_exp b))
      else
        let shift = int (ndigits (d_int b)) - int (ndigits (d_int a)) + int prec + 1;
            expn = d_exp a - d_exp b - shift;
            num = (if shift \<ge> 0 then d_int a * 10 ^ nat shift else d_int a);
            den = (if shift \<ge> 0 then d_int b else d_int b * 10 ^ nat (- shift));
            coeff = num div den;
            remainder = num mod den
        in if remainder \<noteq> 0 then
             Inr (Decimal sign (if coeff mod 5 = 0 then coeff + 1 else coeff) expn)
           else
             case to_ideal coeff expn (d_exp a - d_exp b) of
               (coeff', expn') \<Rightarrow> Inr (Decimal sign coeff' expn'))"

definition dec_truediv :: "decimal \<Rightarrow> decimal \<Rightarrow> error + decimal" where
  "dec_truediv a b = (case div_unrounded a b of Inl e \<Rightarrow> Inl e | Inr d \<Rightarrow> dec_fix d)"

text \<open>\<^verbatim>\<open>value > 0\<close>: \<^verbatim>\<open>_cmp\<close> against a zero is 0 for a zero (of either sign)
  and otherwise follows the sign.\<close>

definition dec_gt_zero :: "decimal \<Rightarrow> bool" where
  "dec_gt_zero d \<longleftrightarrow> d_int d \<noteq> 0 \<and> \<not> d_sign d"

section \<open>The positivity validator\<close>

text \<open>
  Modelled from the spec: \<^verbatim>\<open>financial_indicators.validation.validate_positive\<close> and
  \<^verbatim>\<open>financial_indicators.exceptions.InvalidInputError\<close> are imported by
  \<^verbatim>\<open>petroleum.py\<close> and are not among the sources. The specification, section 4.1:
  given a decimal value and a name label, the validator succeeds silently if the value is
  strictly greater than zero; otherwise it fails with an "invalid input" error identifying
  the offending parameter name and the bad value.
\<close>

definition validate_positive :: "decimal \<Rightarrow> string \<Rightarrow> error + unit" where
  "validate_positive v name =
     (if dec_gt_zero v then Inr () else Inl (InvalidInputError name v))"

section \<open>The formula functions\<close>

text \<open>What a call returns or raises. Statements run in sequence, and a raise ends the
  call: \<open>then_do\<close> runs the rest only on the value of a step that returned.\<close>

definition then_do :: "error + 'a \<Rightarrow> ('a \<Rightarrow> error + 'b) \<Rightarrow> error + 'b" where
  "then_do r f = (case r of Inl e \<Rightarrow> Inl e | Inr v \<Rightarrow> f v)"

definition finding_development_cost :: "decimal \<Rightarrow> decimal \<Rightarrow> decimal \<Rightarrow> error + decimal" where
  "finding_development_cost exploration_costs development_costs reserves_added =
     then_do (validate_positive reserves_added ''reserves_added'') (\<lambda>_.
     then_do (dec_add exploration_costs development_costs) (\<lambda>total.
     dec_truediv total reserves_added))"

definition reserve_replacement_ratio :: "decimal \<Rightarrow> decimal \<Rightarrow> error + decimal" where
  "reserve_replacement_ratio reserves_added production =
     then_do (validate_positive production ''production'') (\<lambda>_.
     dec_truediv reserves_added production)"

definition reserve_life_index :: "decimal \<Rightarrow> decimal \<Rightarrow> error + decimal" where
  "reserve_life_index proved_reserves annual_production =
     then_do (validate_positive proved_reserves ''proved_reserves'') (\<lambda>_.
     then_do (validate_positive annual_production ''annual_production'') (\<lambda>_.
     dec_truediv proved_reserves annual_production))"

definition reserves_per_share :: "decimal \<Rightarrow> decimal \<Rightarrow> error + decimal" where
  "reserves_per_share total_proved_reserves shares_outstanding =
     then_do (validate_positive total_proved_reserves ''total_proved_reserves'') (\<lambda>_.
     then_do (validate_positive shares_outstanding ''shares_outstanding'') (\<lambda>_.
     dec_truediv total_proved_reserves shares_outstanding))"

definition lifting_cost :: "decimal \<Rightarrow> decimal \<Rightarrow> error + decimal" where
  "lifting_cost total_operating_costs total_production =
     then_do (validate_positive total_production ''total_production'') (\<lambda>_.
     dec_truediv total_operating_costs total_production)"

definition netback :: "decimal \<Rightarrow> decimal \<Rightarrow> decimal \<Rightarrow> decimal \<Rightarrow> error + decimal" where
  "netback oil_price royalties transportation operating_costs =
     then_do (dec_sub oil_price royalties) (\<lambda>d1.
     then_do (dec_sub d1 transportation) (\<lambda>d2.
     dec_sub d2 operating_costs))"

definition breakeven_price :: "decimal \<Rightarrow> decimal \<Rightarrow> error + decimal" where
  "breakeven_price total_costs total_production =
     then_do (validate_positive total_production ''total_production'') (\<lambda>_.
     dec_truediv total_costs total_production)"

text \<open>The factor \<^verbatim>\<open>100\<close> is a Python int, which \<^verbatim>\<open>*\<close> converts to the Decimal
  of coefficient 100 and exponent 0.\<close>

definition operating_netback_margin :: "decimal \<Rightarrow> decimal \<Rightarrow> error + decimal" where
  "operating_netback_margin netback_value oil_price =
     then_do (validate_positive oil_price ''oil_price'') (\<lambda>_.
     then_do (dec_truediv netback_value oil_price) (\<lambda>q.
     dec_mul q (Decimal False 100 0)))"

definition capital_efficiency :: "decimal \<Rightarrow> decimal \<Rightarrow> error + decimal" where
  "capital_efficiency production_added capital_expenditure =
     then_do (validate_positive production_added ''production_added'') (\<lambda>_.
     then_do (validate_positive capital_expenditure ''capital_expenditure'') (\<lambda>_.
     dec_truediv production_added capital_expenditure))"

definition recycle_ratio :: "decimal \<Rightarrow> decimal \<Rightarrow> error + decimal" where
  "recycle_ratio operating_netback fd_cost =
     then_do (validate_positive fd_cost ''finding_development_cost'') (\<lambda>_.
     dec_truediv operating_netback fd_cost)"

section \<open>The flags of the decimal context\<close>

text \<open>
  The arithmetic has one effect besides its result: an operation sets the flag of each
  signal it meets, in the context of the running thread. The flags are sticky: nothing in
  the repository clears or reads them. \<open>fix_signals\<close> lists the signals the rounding step
  records for a Decimal: Clamped for a zero whose exponent is clipped; Overflow together
  with Inexact and Rounded for a result above the exponent range; Underflow, Subnormal,
  Inexact, Rounded and Clamped after a rounding; Subnormal alone for an unrounded
  subnormal. On an overflow the module \<^verbatim>\<open>decimal\<close> that Python loads, the C
  implementation, sets the three flags before the trap raises, where the Python fallback
  \<^verbatim>\<open>_pydecimal\<close> raises after setting Overflow alone; the model follows the C
  implementation, and the two agree everywhere else.
\<close>

definition fix_signals :: "decimal \<Rightarrow> signal set" where
  "fix_signals d =
     (if d_int d = 0 then
        (if min (max (d_exp d) Etiny) Emax \<noteq> d_exp d then {Clamped} else {})
      else
        let exp_min0 = int (ndigits (d_int d)) + d_exp d - int prec in
        if exp_min0 > Etop then {Overflow, Inexact, Rounded}
        else
          let subnormal = (exp_min0 < Etiny);
              exp_min = (if subnormal then Etiny else exp_min0) in
          if d_exp d < exp_min then
            (case dec_fix d of
               Inl _ \<Rightarrow> {Overflow, Inexact, Rounded}
             | Inr ans \<Rightarrow>
                 let digits0 = int (ndigits (d_int d)) + d_exp d - exp_min;
                     self = (if digits0 < 0 then Decimal (d_sign d) 1 (exp_min - 1) else d);
                     digits = (if digits0 < 0 then 0 else nat digits0);
                     changed = round_half_even (d_int self) digits
                 in (if changed \<noteq> 0 \<and> subnormal then {Underflow} else {})
                    \<union> (if subnormal then {Subnormal} else {})
                    \<union> (if changed \<noteq> 0 then {Inexact} else {})
                    \<union> {Rounded}
                    \<union> (if d_int ans = 0 then {Clamped} else {}))
          else (if subnormal then {Subnormal} else {}))"

text \<open>A call in a context: it takes the flags as it finds them and gives back its result,
  or the exception it raises, with the flags as it leaves them.\<close>

type_synonym 'a ctx = "signal set \<Rightarrow> (error + 'a) \<times> signal set"

definition fix_ctx :: "decimal \<Rightarrow> decimal ctx" where
  "fix_ctx d flags = (dec_fix d, flags \<union> fix_signals d)"

definition add_ctx :: "decimal \<Rightarrow> decimal \<Rightarrow> decimal ctx" where
  "add_ctx a b = fix_ctx (add_unrounded a b)"

definition sub_ctx :: "decimal \<Rightarrow> decimal \<Rightarrow> decimal ctx" where
  "sub_ctx a b = add_ctx a (copy_negate b)"

definition mul_ctx :: "decimal \<Rightarrow> decimal \<Rightarrow> decimal ctx" where
  "mul_ctx a b = fix_ctx (mul_unrounded a b)"

text \<open>A zero divisor sets the flag of its signal and raises it.\<close>

definition truediv_ctx :: "decimal \<Rightarrow> decimal \<Rightarrow> decimal ctx" where
  "truediv_ctx a b flags =
     (case div_unrounded a b of
        Inl (Signal s) \<Rightarrow> (Inl (Signal s), insert s flags)
      | Inl e \<Rightarrow> (Inl e, flags)
      | Inr d \<Rightarrow> fix_ctx d flags)"

text \<open>The validator compares and raises; it touches no flag.\<close>

definition validate_ctx :: "decimal \<Rightarrow> string \<Rightarrow> unit ctx" where
  "validate_ctx v name flags = (validate_positive v name, flags)"

definition then_ctx :: "'a ctx \<Rightarrow> ('a \<Rightarrow> 'b ctx) \<Rightarrow> 'b ctx" where
  "then_ctx m f flags =
     (case m flags of (Inl e, flags') \<Rightarrow> (Inl e, flags') | (Inr v, flags') \<Rightarrow> f v flags')"

text \<open>The ten formula functions as calls in a context, statement by statement as in
  \<^verbatim>\<open>petroleum.py\<close>.\<close>

definition finding_development_cost_ctx :: "decimal \<Rightarrow> decimal \<Rightarrow> decimal \<Rightarrow> decimal ctx" where
  "finding_development_cost_ctx exploration_costs development_costs reserves_added =
     then_ctx (validate_ctx reserves_added ''reserves_added'') (\<lambda>_.
     then_ctx (add_ctx exploration_costs development_costs) (\<lambda>total.
     truediv_ctx total reserves_added))"

definition reserve_replacement_ratio_ctx :: "decimal \<Rightarrow> decimal \<Rightarrow> decimal ctx" where
  "reserve_replacement_ratio_ctx reserves_added production =
     then_ctx (validate_ctx production ''production'') (\<lambda>_.
     truediv_ctx reserves_added production)"

definition reserve_life_index_ctx :: "decimal \<Rightarrow> decimal \<Rightarrow> decimal ctx" where
  "reserve_life_index_ctx proved_reserves annual_production =
     then_ctx (validate_ctx proved_reserves ''proved_reserves'') (\<lambda>_.
     then_ctx (validate_ctx annual_production ''annual_production'') (\<lambda>_.
     truediv_ctx proved_reserves annual_production))"

definition reserves_per_share_ctx :: "decimal \<Rightarrow> decimal \<Rightarrow> decimal ctx" where
  "reserves_per_share_ctx total_proved_reserves shares_outstanding =
     then_ctx (validate_ctx total_proved_reserves ''total_proved_reserves'') (\<lambda>_.
     then_ctx (validate_ctx shares_outstanding ''shares_outstanding'') (\<lambda>_.
     truediv_ctx total_proved_reserves shares_outstanding))"

definition lifting_cost_ctx :: "decimal \<Rightarrow> decimal \<Rightarrow> decimal ctx" where
  "lifting_cost_ctx total_operating_costs total_production =
     then_ctx (validate_ctx total_production ''total_production'') (\<lambda>_.
     truediv_ctx total_operating_costs total_production)"

definition netback_ctx :: "decimal \<Rightarrow> decimal \<Rightarrow> decimal \<Rightarrow> decimal \<Rightarrow> decimal ctx" where
  "netback_ctx oil_price royalties transportation operating_costs =
     then_ctx (sub_ctx oil_price royalties) (\<lambda>d1.
     then_ctx (sub_ctx d1 transportation) (\<lambda>d2.
     sub_ctx d2 operating_costs))"

definition breakeven_price_ctx :: "decimal \<Rightarrow> decimal \<Rightarrow> decimal ctx" where
  "breakeven_price_ctx total_costs total_production =
     then_ctx (validate_ctx total_production ''total_production'') (\<lambda>_.
     truediv_ctx total_costs total_production)"

definition operating_netback_margin_ctx :: "decimal \<Rightarrow> decimal \<Rightarrow> decimal ctx" where
  "operating_netback_margin_ctx netback_value oil_price =
     then_ctx (validate_ctx oil_price ''oil_price'') (\<lambda>_.
     then_ctx (truediv_ctx netback_value oil_price) (\<lambda>q.
     mul_ctx q (Decimal False 100 0)))"

definition capital_efficiency_ctx :: "decimal \<Rightarrow> decimal \<Rightarrow> decimal ctx" where
  "capital_efficiency_ctx production_added capital_expenditure =
     then_ctx (validate_ctx production_added ''production_added'') (\<lambda>_.
     then_ctx (validate_ctx capital_expenditure ''capital_expenditure'') (\<lambda>_.
     truediv_ctx production_added capital_expenditure))"

definition recycle_ratio_ctx :: "decimal \<Rightarrow> decimal \<Rightarrow> decimal ctx" where
  "recycle_ratio_ctx operating_netback fd_cost =
     then_ctx (validate_ctx fd_cost ''finding_development_cost'') (\<lambda>_.
     truediv_ctx operating_netback fd_cost)"

section \<open>What the claims speak about\<close>

text \<open>A call "raises the invalid-input error" when it ends in the repository's
  \<^verbatim>\<open>InvalidInputError\<close>, whatever name and value the error carries.\<close>

definition raises_invalid_input :: "error + decimal \<Rightarrow> bool" where
  "raises_invalid_input r \<longleftrightarrow> (\<exists>name v. r = Inl (InvalidInputError name v))"

text \<open>A call "only adds flags" when, from every state of the flags, it gives the result it
  gives in a fresh context and leaves the flags it found together with the signals it
  records in a fresh context: the result does not depend on the flags, and neither does
  what the call adds to them.\<close>

definition adds_flags :: "'a ctx \<Rightarrow> bool" where
  "adds_flags m \<longleftrightarrow> (\<forall>flags. m flags = (fst (m {}), flags \<union> snd (m {})))"

text \<open>
  Rounding half to even. \<open>rhe x\<close> is the integer nearest to \<open>x\<close>, the even one of the two
  when \<open>x\<close> lies half way between them.
\<close>

definition rhe :: "rat \<Rightarrow> int" where
  "rhe x =
     (let f = \<lfloor>x\<rfloor>; d = x - of_int f in
      if d < 1 / 2 then f else if 1 / 2 < d then f + 1 else if even f then f else f + 1)"

text \<open>
  The exponent at which the context rounds a number \<open>x\<close>: the one that leaves \<open>prec\<close>
  digits of \<open>x\<close>, and \<open>Etiny\<close> for the numbers too small for that.
\<close>

definition quantum :: "rat \<Rightarrow> int \<Rightarrow> bool" where
  "quantum x E \<longleftrightarrow>
     (E = Etiny \<and> \<bar>x\<bar> < 10 powi (Etiny + int prec))
     \<or> (Etiny < E \<and> 10 powi (E + int prec - 1) \<le> \<bar>x\<bar> \<and> \<bar>x\<bar> < 10 powi (E + int prec))"

text \<open>
  The outcome of an operation "is \<open>x\<close> rounded" when it is what the context makes of the
  exact number \<open>x\<close>: \<open>x\<close> rounded half to even to a multiple of ten to the power of its
  quantum, returned if its magnitude is below \<open>10^(Emax + 1)\<close> and refused with Overflow
  otherwise.
\<close>

definition rounds_to :: "rat \<Rightarrow> error + decimal \<Rightarrow> bool" where
  "rounds_to x res \<longleftrightarrow>
     (\<exists>E. quantum x E \<and>
        (let y = of_int (rhe (\<bar>x\<bar> / 10 powi E)) * 10 powi E in
         if 10 powi (Emax + 1) \<le> y then res = Inl (Signal Overflow)
         else (\<exists>r. res = Inr r \<and> dval r = sgn x * y)))"

text \<open>Two outcomes agree when both are the Overflow or both are Decimals of one value.\<close>

definition same_outcome :: "error + decimal \<Rightarrow> error + decimal \<Rightarrow> bool" where
  "same_outcome r1 r2 \<longleftrightarrow>
     (r1 = Inl (Signal Overflow) \<and> r2 = Inl (Signal Overflow))
     \<or> (\<exists>x y. r1 = Inr x \<and> r2 = Inr y \<and> dval x = dval y)"

section \<open>Basic facts\<close>

subsection \<open>Counting digits\<close>


lemma ndigits_small: "n < 10 \<Longrightarrow> ndigits n = 1"
  by (subst ndigits.simps) simp

lemma ndigits_eqI: "10 ^ k \<le> n \<Longrightarrow> n < 10 ^ Suc k \<Longrightarrow> ndigits n = Suc k"
proof (induction k arbitrary: n)
  case 0
  then show ?case by (simp add: ndigits_small)
next
  case (Suc k)
  have ge: "10 \<le> n"
  proof -
    have a: "(1::nat) \<le> 10 ^ k" by simp
    have b: "(10::nat) * 10 ^ k \<le> n" using Suc.prems(1) by simp
    from a b show ?thesis by linarith
  qed
  have lo: "10 ^ k \<le> n div 10"
    using Suc.prems(1) by (simp add: less_eq_div_iff_mult_less_eq)
  have hi: "n div 10 < 10 ^ Suc k"
    using Suc.prems(2) by (simp add: div_less_iff_less_mult mult.commute)
  have "ndigits n = Suc (ndigits (n div 10))"
    using ge by (subst ndigits.simps) simp
  with Suc.IH[OF lo hi] show ?case by simp
qed

lemma ndigits_numI: "0 < k \<Longrightarrow> 10 ^ (k - 1) \<le> n \<Longrightarrow> n < 10 ^ k \<Longrightarrow> ndigits n = k"
  using ndigits_eqI[of "k - 1" n] by simp

text \<open>Unfolding the arithmetic at concrete operands; the digit counts are supplied as
  facts at each use.\<close>

lemmas dec_unfold = dec_fix_def dec_add_def add_unrounded_def dec_sub_def dec_mul_def
  mul_unrounded_def dec_truediv_def div_unrounded_def
  copy_negate_def normalize_def rescale_def round_half_even_def round_half_up_def exact_half_def
  all_zeros_def Let_def prec_def Etop_def Etiny_def Emax_def Emin_def
  then_do_def validate_positive_def dec_gt_zero_def

subsection \<open>Sign and value\<close>

lemma pow10_pos: "0 < (10::rat) powi e"
  by (simp add: zero_less_power_int)

lemma dval_pos_iff: "0 < dval (Decimal s c e) \<longleftrightarrow> \<not> s \<and> 0 < c"
proof (cases s)
  case True
  have "0 \<le> rat_of_nat c * 10 powi e"
    using pow10_pos[of e] by (simp add: less_imp_le)
  with True show ?thesis by (simp add: dval_def not_less)
next
  case False
  then show ?thesis using pow10_pos[of e] by (simp add: dval_def zero_less_mult_iff)
qed

lemma dec_gt_zero_iff: "dec_gt_zero v \<longleftrightarrow> 0 < dval v"
  by (cases v) (auto simp: dec_gt_zero_def dval_pos_iff)

lemma pos_nonzero: "0 < dval v \<Longrightarrow> d_int v \<noteq> 0"
  by (cases v) (simp add: dval_pos_iff)

subsection \<open>Which errors the arithmetic can raise\<close>

lemma dec_fix_error: "dec_fix d = Inl e \<Longrightarrow> e = Signal Overflow"
  by (auto simp: dec_fix_def Let_def split: if_splits)

lemma dec_add_error: "dec_add a b = Inl e \<Longrightarrow> e = Signal Overflow"
  by (simp add: dec_add_def dec_fix_error)


lemma dec_mul_error: "dec_mul a b = Inl e \<Longrightarrow> e = Signal Overflow"
  by (simp add: dec_mul_def dec_fix_error)

lemma dec_truediv_error: "d_int b \<noteq> 0 \<Longrightarrow> dec_truediv a b = Inl e \<Longrightarrow> e = Signal Overflow"
  by (auto simp: dec_truediv_def div_unrounded_def Let_def split: if_splits prod.splits sum.splits
      dest: dec_fix_error)

lemma dec_truediv_pos_error: "0 < dval b \<Longrightarrow> dec_truediv a b = Inl e \<Longrightarrow> e = Signal Overflow"
  using dec_truediv_error pos_nonzero by blast

subsection \<open>The guard clause\<close>

lemma then_do_Inl_iff:
  "then_do r f = Inl e \<longleftrightarrow> r = Inl e \<or> (\<exists>v. r = Inr v \<and> f v = Inl e)"
  by (cases r) (simp_all add: then_do_def)

lemma guard_fail:
  "dval v \<le> 0 \<Longrightarrow> then_do (validate_positive v name) rest = Inl (InvalidInputError name v)"
  by (simp add: then_do_def validate_positive_def dec_gt_zero_iff not_less[symmetric])

lemma guard_pass:
  "0 < dval v \<Longrightarrow> then_do (validate_positive v name) rest = rest ()"
  by (simp add: then_do_def validate_positive_def dec_gt_zero_iff)

lemma rii_guard:
  assumes "\<And>e. 0 < dval v \<Longrightarrow> rest () = Inl e \<Longrightarrow> e = Signal Overflow"
  shows "raises_invalid_input (then_do (validate_positive v name) rest) \<longleftrightarrow> dval v \<le> 0"
proof (cases "0 < dval v")
  case True
  then show ?thesis using assms by (auto simp: guard_pass raises_invalid_input_def)
next
  case False
  then have "dval v \<le> 0" by simp
  then show ?thesis by (simp add: guard_fail raises_invalid_input_def)
qed

lemma fdc_rest_error:
  "0 < dval r \<Longrightarrow> then_do (dec_add x y) (\<lambda>total. dec_truediv total r) = Inl e \<Longrightarrow> e = Signal Overflow"
  by (auto simp: then_do_Inl_iff dest: dec_add_error dec_truediv_pos_error)

lemma onm_rest_error:
  "0 < dval p \<Longrightarrow> then_do (dec_truediv n p) (\<lambda>q. dec_mul q c) = Inl e \<Longrightarrow> e = Signal Overflow"
  by (auto simp: then_do_Inl_iff dest: dec_mul_error dec_truediv_pos_error)

lemma two_guards_rii:
  "raises_invalid_input
     (then_do (validate_positive a n1) (\<lambda>_.
      then_do (validate_positive b n2) (\<lambda>_. dec_truediv a b)))
   \<longleftrightarrow> dval a \<le> 0 \<or> dval b \<le> 0"
proof (cases "0 < dval a")
  case True
  have "raises_invalid_input (then_do (validate_positive b n2) (\<lambda>_. dec_truediv a b))
          \<longleftrightarrow> dval b \<le> 0"
    by (rule rii_guard) (rule dec_truediv_pos_error)
  with True show ?thesis by (simp add: guard_pass)
next
  case False
  then have "dval a \<le> 0" by simp
  then show ?thesis by (simp add: guard_fail raises_invalid_input_def)
qed

lemma two_guards_second:
  "0 < dval a \<Longrightarrow> dval b \<le> 0 \<Longrightarrow>
     then_do (validate_positive a n1) (\<lambda>_. then_do (validate_positive b n2) rest)
       = Inl (InvalidInputError n2 b)"
  by (simp add: guard_pass guard_fail)

subsection \<open>Digit counts and values\<close>

lemma ndigits_upper: "n < 10 ^ ndigits n"
proof (induction n rule: ndigits.induct)
  case (1 n)
  show ?case
  proof (cases "n < 10")
    case True
    then show ?thesis by (simp add: ndigits_small)
  next
    case False
    then have eq: "ndigits n = Suc (ndigits (n div 10))" by (subst ndigits.simps) simp
    have "n div 10 < 10 ^ ndigits (n div 10)" using 1 False by simp
    then have "n < 10 * 10 ^ ndigits (n div 10)" by (simp add: div_less_iff_less_mult mult.commute)
    with eq show ?thesis by simp
  qed
qed





lemma dval_Decimal: "dval (Decimal s c e) = (if s then - 1 else 1) * of_nat c * 10 powi e"
  by (simp add: dval_def)






subsection \<open>Concrete digit counts and evaluations\<close>

lemma nd_1: "ndigits 1 = 1" by (rule ndigits_numI; simp)
lemma nd_Suc0: "ndigits (Suc 0) = 1" by (rule ndigits_numI; simp)
lemma nd_4000: "ndigits 4000 = 4" by (rule ndigits_numI; simp)
lemma nd_7000: "ndigits 7000 = 4" by (rule ndigits_numI; simp)







lemma nd_q29: "ndigits 57142857142857142857142857142 = 29" by (rule ndigits_numI; simp)
lemma nd_q28: "ndigits 5714285714285714285714285714 = 28" by (rule ndigits_numI; simp)
lemma nd_q30: "ndigits 571428571428571428571428571400 = 30" by (rule ndigits_numI; simp)

lemma onm_example:
  "operating_netback_margin (Decimal False 4000 (- 2)) (Decimal False 7000 (- 2))
     = Inr (Decimal False 5714285714285714285714285714 (- 26))"
  by (simp add: operating_netback_margin_def dec_unfold nd_4000 nd_7000 nd_q29 nd_q28 nd_q30)


subsection \<open>Calls in a context\<close>

lemma fix_ctx_result: "fst (fix_ctx d flags) = dec_fix d"
  by (simp add: fix_ctx_def)

lemma add_ctx_result: "fst (add_ctx a b flags) = dec_add a b"
  by (simp add: add_ctx_def fix_ctx_def dec_add_def)

lemma sub_ctx_result: "fst (sub_ctx a b flags) = dec_sub a b"
  by (simp add: sub_ctx_def dec_sub_def add_ctx_result)

lemma mul_ctx_result: "fst (mul_ctx a b flags) = dec_mul a b"
  by (simp add: mul_ctx_def fix_ctx_def dec_mul_def)

lemma truediv_ctx_result: "fst (truediv_ctx a b flags) = dec_truediv a b"
  by (simp add: truediv_ctx_def dec_truediv_def fix_ctx_def split: sum.splits error.splits)

lemma then_ctx_result:
  "fst (then_ctx m f flags) = then_do (fst (m flags)) (\<lambda>v. fst (f v (snd (m flags))))"
  by (simp add: then_ctx_def then_do_def split: prod.splits sum.splits)

lemma validate_ctx_simps:
  "fst (validate_ctx v name flags) = validate_positive v name"
  "snd (validate_ctx v name flags) = flags"
  by (simp_all add: validate_ctx_def)

lemmas ctx_result = then_ctx_result validate_ctx_simps add_ctx_result sub_ctx_result
  mul_ctx_result truediv_ctx_result

lemma finding_development_cost_ctx_result:
  "fst (finding_development_cost_ctx x y r flags) = finding_development_cost x y r"
  by (simp add: finding_development_cost_ctx_def finding_development_cost_def ctx_result)

lemma reserve_replacement_ratio_ctx_result:
  "fst (reserve_replacement_ratio_ctx a b flags) = reserve_replacement_ratio a b"
  by (simp add: reserve_replacement_ratio_ctx_def reserve_replacement_ratio_def ctx_result)

lemma reserve_life_index_ctx_result:
  "fst (reserve_life_index_ctx a b flags) = reserve_life_index a b"
  by (simp add: reserve_life_index_ctx_def reserve_life_index_def ctx_result)

lemma reserves_per_share_ctx_result:
  "fst (reserves_per_share_ctx a b flags) = reserves_per_share a b"
  by (simp add: reserves_per_share_ctx_def reserves_per_share_def ctx_result)

lemma lifting_cost_ctx_result:
  "fst (lifting_cost_ctx a b flags) = lifting_cost a b"
  by (simp add: lifting_cost_ctx_def lifting_cost_def ctx_result)

lemma netback_ctx_result:
  "fst (netback_ctx p r t c flags) = netback p r t c"
  by (simp add: netback_ctx_def netback_def ctx_result)

lemma breakeven_price_ctx_result:
  "fst (breakeven_price_ctx a b flags) = breakeven_price a b"
  by (simp add: breakeven_price_ctx_def breakeven_price_def ctx_result)

lemma operating_netback_margin_ctx_result:
  "fst (operating_netback_margin_ctx a b flags) = operating_netback_margin a b"
  by (simp add: operating_netback_margin_ctx_def operating_netback_margin_def ctx_result)

lemma capital_efficiency_ctx_result:
  "fst (capital_efficiency_ctx a b flags) = capital_efficiency a b"
  by (simp add: capital_efficiency_ctx_def capital_efficiency_def ctx_result)

lemma recycle_ratio_ctx_result:
  "fst (recycle_ratio_ctx a b flags) = recycle_ratio a b"
  by (simp add: recycle_ratio_ctx_def recycle_ratio_def ctx_result)

lemma adds_flagsD: "adds_flags m \<Longrightarrow> m flags = (fst (m {}), flags \<union> snd (m {}))"
  unfolding adds_flags_def by blast

lemma adds_flags_fix: "adds_flags (fix_ctx d)"
  by (simp add: adds_flags_def fix_ctx_def)

lemma adds_flags_add: "adds_flags (add_ctx a b)"
  by (simp add: add_ctx_def adds_flags_fix)

lemma adds_flags_sub: "adds_flags (sub_ctx a b)"
  by (simp add: sub_ctx_def adds_flags_add)

lemma adds_flags_mul: "adds_flags (mul_ctx a b)"
  by (simp add: mul_ctx_def adds_flags_fix)

lemma adds_flags_truediv: "adds_flags (truediv_ctx a b)"
  by (auto simp: adds_flags_def truediv_ctx_def fix_ctx_def split: sum.splits error.splits)

lemma adds_flags_validate: "adds_flags (validate_ctx v name)"
  by (simp add: adds_flags_def validate_ctx_def)

lemma adds_flags_then:
  assumes m: "adds_flags m" and f: "\<And>v. adds_flags (f v)"
  shows "adds_flags (then_ctx m f)"
proof -
  obtain r0 s0 where m0: "m {} = (r0, s0)" by (cases "m {}")
  have mfl: "m flags = (r0, flags \<union> s0)" for flags
    using adds_flagsD[OF m, of flags] m0 by simp
  have "then_ctx m f flags = (fst (then_ctx m f {}), flags \<union> snd (then_ctx m f {}))" for flags
  proof (cases r0)
    case (Inl e)
    then show ?thesis by (simp add: then_ctx_def mfl m0)
  next
    case (Inr v)
    have a: "then_ctx m f flags = f v (flags \<union> s0)"
      using Inr by (simp add: then_ctx_def mfl)
    have b: "then_ctx m f {} = f v s0"
      using Inr by (simp add: then_ctx_def m0)
    have c: "f v (flags \<union> s0) = (fst (f v {}), flags \<union> s0 \<union> snd (f v {}))"
      by (rule adds_flagsD[OF f])
    have d: "f v s0 = (fst (f v {}), s0 \<union> snd (f v {}))"
      by (rule adds_flagsD[OF f])
    have e: "fst (f v s0) = fst (f v {})" "snd (f v s0) = s0 \<union> snd (f v {})"
      by (simp_all add: d)
    show ?thesis
      unfolding a b e by (subst c) (simp add: Un_assoc)
  qed
  then show ?thesis unfolding adds_flags_def by blast
qed

lemmas adds_flags_intros = adds_flags_then adds_flags_validate adds_flags_add adds_flags_sub
  adds_flags_mul adds_flags_truediv

lemma ctx_guard_fail:
  "dval v \<le> 0 \<Longrightarrow>
     then_ctx (validate_ctx v name) rest flags = (Inl (InvalidInputError name v), flags)"
  by (simp add: then_ctx_def validate_ctx_def validate_positive_def dec_gt_zero_iff
      not_less[symmetric])

lemma ctx_guard_pass:
  "0 < dval v \<Longrightarrow> then_ctx (validate_ctx v name) rest flags = rest () flags"
  by (simp add: then_ctx_def validate_ctx_def validate_positive_def dec_gt_zero_iff)

lemma guard_signal:
  assumes "then_do (validate_positive v name) rest = Inl (Signal s)"
    and "0 < dval v \<Longrightarrow> rest () = Inl (Signal s) \<Longrightarrow> s = Overflow"
  shows "s = Overflow"
proof (cases "0 < dval v")
  case True
  with assms show ?thesis by (simp add: guard_pass)
next
  case False
  then have "dval v \<le> 0" by simp
  with assms(1) show ?thesis by (simp add: guard_fail)
qed

lemma truediv_signal: "0 < dval b \<Longrightarrow> dec_truediv a b = Inl (Signal s) \<Longrightarrow> s = Overflow"
  using dec_truediv_pos_error[of b a "Signal s"] by simp

lemma one_guard_signal:
  "then_do (validate_positive b name) (\<lambda>_. dec_truediv a b) = Inl (Signal s) \<Longrightarrow> s = Overflow"
  by (erule guard_signal) (rule truediv_signal)

lemma two_guards_signal:
  "then_do (validate_positive a n1) (\<lambda>_.
   then_do (validate_positive b n2) (\<lambda>_. dec_truediv a b)) = Inl (Signal s) \<Longrightarrow> s = Overflow"
  by (erule guard_signal) (rule one_guard_signal)

lemma fdc_signal:
  "finding_development_cost x y r = Inl (Signal s) \<Longrightarrow> s = Overflow"
  unfolding finding_development_cost_def
  by (erule guard_signal) (use fdc_rest_error in blast)

lemma onm_signal:
  "operating_netback_margin n p = Inl (Signal s) \<Longrightarrow> s = Overflow"
  unfolding operating_netback_margin_def
  by (erule guard_signal) (use onm_rest_error in blast)

lemma nd_3: "ndigits 3 = 1" by (rule ndigits_numI; simp)
lemma nd_5: "ndigits 5 = 1" by (rule ndigits_numI; simp)
lemma nd_third: "ndigits 33333333333333333333333333333 = 29" by (rule ndigits_numI; simp)

lemma truediv_ctx_by_zero:
  "truediv_ctx (Decimal False 5 0) (Decimal False 0 0) {} = (Inl (Signal DivisionByZero), {DivisionByZero})"
  by (simp add: truediv_ctx_def div_unrounded_def)

lemma truediv_ctx_by_negative:
  "truediv_ctx (Decimal False 1 0) (Decimal True 3 0) {}
     = (Inr (Decimal True 3333333333333333333333333333 (- 28)), {Inexact, Rounded})"
  by (simp add: truediv_ctx_def fix_ctx_def fix_signals_def dec_unfold nd_1 nd_Suc0 nd_3 nd_third
      insert_commute)

section \<open>Validation\<close>

text \<open>
  C1: for every formula function with a "must be positive" precondition, the call raises
  the invalid-input error if and only if one of its required-positive parameters is zero or
  negative, and the error carries the name of the offending parameter and its value. The
  offending parameter is the first one, in the order of the checks, that is not positive.
  The validator and the error are modelled from the specification.
\<close>

theorem C1_invalid_input_iff_not_positive:
  "(raises_invalid_input (finding_development_cost exploration_costs development_costs reserves_added)
      \<longleftrightarrow> dval reserves_added \<le> 0)
   \<and> (dval reserves_added \<le> 0 \<longrightarrow>
        finding_development_cost exploration_costs development_costs reserves_added
          = Inl (InvalidInputError ''reserves_added'' reserves_added))
   \<and> (raises_invalid_input (reserve_replacement_ratio a1 production) \<longleftrightarrow> dval production \<le> 0)
   \<and> (dval production \<le> 0 \<longrightarrow>
        reserve_replacement_ratio a1 production = Inl (InvalidInputError ''production'' production))
   \<and> (raises_invalid_input (reserve_life_index proved_reserves annual_production)
        \<longleftrightarrow> dval proved_reserves \<le> 0 \<or> dval annual_production \<le> 0)
   \<and> (dval proved_reserves \<le> 0 \<longrightarrow>
        reserve_life_index proved_reserves annual_production
          = Inl (InvalidInputError ''proved_reserves'' proved_reserves))
   \<and> (0 < dval proved_reserves \<and> dval annual_production \<le> 0 \<longrightarrow>
        reserve_life_index proved_reserves annual_production
          = Inl (InvalidInputError ''annual_production'' annual_production))
   \<and> (raises_invalid_input (reserves_per_share total_proved_reserves shares_outstanding)
        \<longleftrightarrow> dval total_proved_reserves \<le> 0 \<or> dval shares_outstanding \<le> 0)
   \<and> (dval total_proved_reserves \<le> 0 \<longrightarrow>
        reserves_per_share total_proved_reserves shares_outstanding
          = Inl (InvalidInputError ''total_proved_reserves'' total_proved_reserves))
   \<and> (0 < dval total_proved_reserves \<and> dval shares_outstanding \<le> 0 \<longrightarrow>
        reserves_per_share total_proved_reserves shares_outstanding
          = Inl (InvalidInputError ''shares_outstanding'' shares_outstanding))
   \<and> (raises_invalid_input (lifting_cost a2 total_production) \<longleftrightarrow> dval total_production \<le> 0)
   \<and> (dval total_production \<le> 0 \<longrightarrow>
        lifting_cost a2 total_production
          = Inl (InvalidInputError ''total_production'' total_production))
   \<and> (raises_invalid_input (breakeven_price a3 total_production) \<longleftrightarrow> dval total_production \<le> 0)
   \<and> (dval total_production \<le> 0 \<longrightarrow>
        breakeven_price a3 total_production
          = Inl (InvalidInputError ''total_production'' total_production))
   \<and> (raises_invalid_input (operating_netback_margin a4 oil_price) \<longleftrightarrow> dval oil_price \<le> 0)
   \<and> (dval oil_price \<le> 0 \<longrightarrow>
        operating_netback_margin a4 oil_price = Inl (InvalidInputError ''oil_price'' oil_price))
   \<and> (raises_invalid_input (capital_efficiency production_added capital_expenditure)
        \<longleftrightarrow> dval production_added \<le> 0 \<or> dval capital_expenditure \<le> 0)
   \<and> (dval production_added \<le> 0 \<longrightarrow>
        capital_efficiency production_added capital_expenditure
          = Inl (InvalidInputError ''production_added'' production_added))
   \<and> (0 < dval production_added \<and> dval capital_expenditure \<le> 0 \<longrightarrow>
        capital_efficiency production_added capital_expenditure
          = Inl (InvalidInputError ''capital_expenditure'' capital_expenditure))
   \<and> (raises_invalid_input (recycle_ratio a5 fd_cost) \<longleftrightarrow> dval fd_cost \<le> 0)
   \<and> (dval fd_cost \<le> 0 \<longrightarrow>
        recycle_ratio a5 fd_cost = Inl (InvalidInputError ''finding_development_cost'' fd_cost))"
proof (intro conjI impI)
  show "raises_invalid_input (finding_development_cost exploration_costs development_costs reserves_added)
      \<longleftrightarrow> dval reserves_added \<le> 0"
    unfolding finding_development_cost_def by (rule rii_guard) (rule fdc_rest_error)
  show "raises_invalid_input (reserve_replacement_ratio a1 production) \<longleftrightarrow> dval production \<le> 0"
    unfolding reserve_replacement_ratio_def by (rule rii_guard) (rule dec_truediv_pos_error)
  show "raises_invalid_input (reserve_life_index proved_reserves annual_production)
        \<longleftrightarrow> dval proved_reserves \<le> 0 \<or> dval annual_production \<le> 0"
    unfolding reserve_life_index_def by (rule two_guards_rii)
  show "raises_invalid_input (reserves_per_share total_proved_reserves shares_outstanding)
        \<longleftrightarrow> dval total_proved_reserves \<le> 0 \<or> dval shares_outstanding \<le> 0"
    unfolding reserves_per_share_def by (rule two_guards_rii)
  show "raises_invalid_input (lifting_cost a2 total_production) \<longleftrightarrow> dval total_production \<le> 0"
    unfolding lifting_cost_def by (rule rii_guard) (rule dec_truediv_pos_error)
  show "raises_invalid_input (breakeven_price a3 total_production) \<longleftrightarrow> dval total_production \<le> 0"
    unfolding breakeven_price_def by (rule rii_guard) (rule dec_truediv_pos_error)
  show "raises_invalid_input (operating_netback_margin a4 oil_price) \<longleftrightarrow> dval oil_price \<le> 0"
    unfolding operating_netback_margin_def by (rule rii_guard) (rule onm_rest_error)
  show "raises_invalid_input (capital_efficiency production_added capital_expenditure)
        \<longleftrightarrow> dval production_added \<le> 0 \<or> dval capital_expenditure \<le> 0"
    unfolding capital_efficiency_def by (rule two_guards_rii)
  show "raises_invalid_input (recycle_ratio a5 fd_cost) \<longleftrightarrow> dval fd_cost \<le> 0"
    unfolding recycle_ratio_def by (rule rii_guard) (rule dec_truediv_pos_error)
qed (simp_all add: finding_development_cost_def reserve_replacement_ratio_def
      reserve_life_index_def reserves_per_share_def lifting_cost_def breakeven_price_def
      operating_netback_margin_def capital_efficiency_def recycle_ratio_def
      guard_fail guard_pass two_guards_second)

theorem C1_witness:
  "finding_development_cost (Decimal False 5 0) (Decimal True 3 0) (Decimal False 0 0)
     = Inl (InvalidInputError ''reserves_added'' (Decimal False 0 0))
   \<and> reserve_replacement_ratio (Decimal False 5 0) (Decimal True 2 0)
     = Inl (InvalidInputError ''production'' (Decimal True 2 0))
   \<and> reserve_life_index (Decimal True 1 0) (Decimal False 2 0)
     = Inl (InvalidInputError ''proved_reserves'' (Decimal True 1 0))
   \<and> reserve_life_index (Decimal False 1 0) (Decimal False 0 0)
     = Inl (InvalidInputError ''annual_production'' (Decimal False 0 0))
   \<and> reserves_per_share (Decimal False 0 0) (Decimal False 2 0)
     = Inl (InvalidInputError ''total_proved_reserves'' (Decimal False 0 0))
   \<and> reserves_per_share (Decimal False 1 0) (Decimal True 7 (- 1))
     = Inl (InvalidInputError ''shares_outstanding'' (Decimal True 7 (- 1)))
   \<and> lifting_cost (Decimal False 5 0) (Decimal False 0 0)
     = Inl (InvalidInputError ''total_production'' (Decimal False 0 0))
   \<and> breakeven_price (Decimal False 5 0) (Decimal False 0 0)
     = Inl (InvalidInputError ''total_production'' (Decimal False 0 0))
   \<and> operating_netback_margin (Decimal False 4000 (- 2)) (Decimal True 7000 (- 2))
     = Inl (InvalidInputError ''oil_price'' (Decimal True 7000 (- 2)))
   \<and> capital_efficiency (Decimal True 1 0) (Decimal False 2 0)
     = Inl (InvalidInputError ''production_added'' (Decimal True 1 0))
   \<and> capital_efficiency (Decimal False 1 0) (Decimal False 0 0)
     = Inl (InvalidInputError ''capital_expenditure'' (Decimal False 0 0))
   \<and> recycle_ratio (Decimal False 45 0) (Decimal False 0 0)
     = Inl (InvalidInputError ''finding_development_cost'' (Decimal False 0 0))
   \<and> \<not> raises_invalid_input (lifting_cost (Decimal False 5 0) (Decimal False 2 0))
   \<and> \<not> raises_invalid_input (reserve_life_index (Decimal False 1 0) (Decimal False 2 0))"
  using
    C1_invalid_input_iff_not_positive
      [where exploration_costs = "Decimal False 5 0" and development_costs = "Decimal True 3 0"
         and reserves_added = "Decimal False 0 0"
         and ?a1.0 = "Decimal False 5 0" and production = "Decimal True 2 0"
         and proved_reserves = "Decimal True 1 0" and annual_production = "Decimal False 2 0"
         and total_proved_reserves = "Decimal False 0 0" and shares_outstanding = "Decimal False 2 0"
         and ?a2.0 = "Decimal False 5 0" and total_production = "Decimal False 0 0"
         and ?a3.0 = "Decimal False 5 0"
         and ?a4.0 = "Decimal False 4000 (- 2)" and oil_price = "Decimal True 7000 (- 2)"
         and production_added = "Decimal True 1 0" and capital_expenditure = "Decimal False 2 0"
         and ?a5.0 = "Decimal False 45 0" and fd_cost = "Decimal False 0 0"]
    C1_invalid_input_iff_not_positive
      [where proved_reserves = "Decimal False 1 0" and annual_production = "Decimal False 0 0"
         and total_proved_reserves = "Decimal False 1 0"
         and shares_outstanding = "Decimal True 7 (- 1)"
         and production_added = "Decimal False 1 0" and capital_expenditure = "Decimal False 0 0"
         and total_production = "Decimal False 2 0" and ?a2.0 = "Decimal False 5 0"]
    C1_invalid_input_iff_not_positive
      [where proved_reserves = "Decimal False 1 0" and annual_production = "Decimal False 2 0"]
  by (simp add: dval_def)

text \<open>
  C9: in the three functions with two positivity preconditions, the first parameter is
  validated first: whenever both arguments are non-positive, the error names the first
  parameter and carries its value.
\<close>

theorem C9_first_parameter_first:
  "(dval proved_reserves \<le> 0 \<and> dval annual_production \<le> 0 \<longrightarrow>
      reserve_life_index proved_reserves annual_production
        = Inl (InvalidInputError ''proved_reserves'' proved_reserves))
   \<and> (dval total_proved_reserves \<le> 0 \<and> dval shares_outstanding \<le> 0 \<longrightarrow>
      reserves_per_share total_proved_reserves shares_outstanding
        = Inl (InvalidInputError ''total_proved_reserves'' total_proved_reserves))
   \<and> (dval production_added \<le> 0 \<and> dval capital_expenditure \<le> 0 \<longrightarrow>
      capital_efficiency production_added capital_expenditure
        = Inl (InvalidInputError ''production_added'' production_added))"
  by (simp add: reserve_life_index_def reserves_per_share_def capital_efficiency_def guard_fail)

theorem C9_witness:
  "reserve_life_index (Decimal False 0 0) (Decimal True 3 0)
     = Inl (InvalidInputError ''proved_reserves'' (Decimal False 0 0))
   \<and> reserves_per_share (Decimal True 5 (- 1)) (Decimal False 0 2)
     = Inl (InvalidInputError ''total_proved_reserves'' (Decimal True 5 (- 1)))
   \<and> capital_efficiency (Decimal True 1 0) (Decimal True 2 0)
     = Inl (InvalidInputError ''production_added'' (Decimal True 1 0))"
  using C9_first_parameter_first
      [where proved_reserves = "Decimal False 0 0" and annual_production = "Decimal True 3 0"
         and total_proved_reserves = "Decimal True 5 (- 1)"
         and shares_outstanding = "Decimal False 0 2"
         and production_added = "Decimal True 1 0" and capital_expenditure = "Decimal True 2 0"]
  by (simp add: dval_def)

section \<open>Netback\<close>







section \<open>Operating netback margin\<close>

text \<open>
  The claim C5 says that \<^verbatim>\<open>operating_netback_margin(40.00, 70.00)\<close> returns 57.14.
  The function does not round to two places: the call returns the quotient at the 28
  digits of the context, times 100.
\<close>

theorem C5_counterexample:
  "\<exists>r. operating_netback_margin (Decimal False 4000 (- 2)) (Decimal False 7000 (- 2)) = Inr r
        \<and> r \<noteq> Decimal False 5714 (- 2) \<and> dval r \<noteq> 5714 / 100"
  by (simp add: onm_example dval_def)

text \<open>
  C5, amended: \<^verbatim>\<open>operating_netback_margin(40.00, 70.00)\<close> returns
  \<open>57.14285714285714285714285714\<close>, which is \<open>(netback / oil_price) * 100\<close> at the 28
  significant digits of the decimal context; it is this value rescaled to two decimal
  places, as a caller may do, that is 57.14.
\<close>

theorem C5_margin_example:
  "operating_netback_margin (Decimal False 4000 (- 2)) (Decimal False 7000 (- 2))
     = Inr (Decimal False 5714285714285714285714285714 (- 26))
   \<and> rescale (Decimal False 5714285714285714285714285714 (- 26)) (- 2) = Decimal False 5714 (- 2)"
  by (simp add: onm_example dec_unfold nd_q28)

section \<open>Determinism and the order of validation and arithmetic\<close>

text \<open>
  The claim C6 says that the ten formula functions are deterministic and free of side
  effects. They are not free of side effects: the arithmetic of a call records its signals
  in the flags of the decimal context of the thread, and the flags stay set after the call.
  In a fresh context \<^verbatim>\<open>reserve_replacement_ratio(1, 3)\<close> returns
  \<open>0.3333333333333333333333333333\<close> and leaves the flags Inexact and Rounded set.
\<close>

theorem C6_counterexample:
  "reserve_replacement_ratio_ctx (Decimal False 1 0) (Decimal False 3 0) {}
     = (Inr (Decimal False 3333333333333333333333333333 (- 28)), {Inexact, Rounded})
   \<and> {Inexact, Rounded} \<noteq> ({} :: signal set)"
  by (simp add: reserve_replacement_ratio_ctx_def then_ctx_def validate_ctx_def truediv_ctx_def
      fix_ctx_def fix_signals_def dec_unfold nd_1 nd_Suc0 nd_3 nd_third insert_commute)

text \<open>
  C6, amended: for finite Decimal arguments in the default decimal context (28 digits,
  rounding half to even, the default traps), which no formula function changes, each of
  the ten formula functions is deterministic: the result of a call, the value returned or
  the error raised, does not depend on the flags that earlier calls have left in the
  context, so two calls on equal inputs give equal results. A call is not free of side
  effects: it adds signals to the flags of the context. That is its only effect, and the
  signals it adds are determined by its arguments: from every state of the flags the call
  gives the result, and adds the signals, that it gives and adds in a fresh context.
\<close>

theorem C6_flags_are_the_only_effect:
  "adds_flags (finding_development_cost_ctx exploration_costs development_costs reserves_added)
   \<and> adds_flags (reserve_replacement_ratio_ctx reserves_added production)
   \<and> adds_flags (reserve_life_index_ctx proved_reserves annual_production)
   \<and> adds_flags (reserves_per_share_ctx total_proved_reserves shares_outstanding)
   \<and> adds_flags (lifting_cost_ctx total_operating_costs total_production)
   \<and> adds_flags (netback_ctx oil_price royalties transportation operating_costs)
   \<and> adds_flags (breakeven_price_ctx total_costs total_production)
   \<and> adds_flags (operating_netback_margin_ctx netback_value oil_price)
   \<and> adds_flags (capital_efficiency_ctx production_added capital_expenditure)
   \<and> adds_flags (recycle_ratio_ctx operating_netback fd_cost)
   \<and> (\<forall>flags flags'.
        fst (finding_development_cost_ctx exploration_costs development_costs reserves_added flags)
          = fst (finding_development_cost_ctx exploration_costs development_costs reserves_added
                   flags')
      \<and> fst (reserve_replacement_ratio_ctx reserves_added production flags)
          = fst (reserve_replacement_ratio_ctx reserves_added production flags')
      \<and> fst (reserve_life_index_ctx proved_reserves annual_production flags)
          = fst (reserve_life_index_ctx proved_reserves annual_production flags')
      \<and> fst (reserves_per_share_ctx total_proved_reserves shares_outstanding flags)
          = fst (reserves_per_share_ctx total_proved_reserves shares_outstanding flags')
      \<and> fst (lifting_cost_ctx total_operating_costs total_production flags)
          = fst (lifting_cost_ctx total_operating_costs total_production flags')
      \<and> fst (netback_ctx oil_price royalties transportation operating_costs flags)
          = fst (netback_ctx oil_price royalties transportation operating_costs flags')
      \<and> fst (breakeven_price_ctx total_costs total_production flags)
          = fst (breakeven_price_ctx total_costs total_production flags')
      \<and> fst (operating_netback_margin_ctx netback_value oil_price flags)
          = fst (operating_netback_margin_ctx netback_value oil_price flags')
      \<and> fst (capital_efficiency_ctx production_added capital_expenditure flags)
          = fst (capital_efficiency_ctx production_added capital_expenditure flags')
      \<and> fst (recycle_ratio_ctx operating_netback fd_cost flags)
          = fst (recycle_ratio_ctx operating_netback fd_cost flags'))"
proof (intro conjI allI)
  show "adds_flags (finding_development_cost_ctx exploration_costs development_costs reserves_added)"
    unfolding finding_development_cost_ctx_def by (intro adds_flags_intros)
  show "adds_flags (reserve_replacement_ratio_ctx reserves_added production)"
    unfolding reserve_replacement_ratio_ctx_def by (intro adds_flags_intros)
  show "adds_flags (reserve_life_index_ctx proved_reserves annual_production)"
    unfolding reserve_life_index_ctx_def by (intro adds_flags_intros)
  show "adds_flags (reserves_per_share_ctx total_proved_reserves shares_outstanding)"
    unfolding reserves_per_share_ctx_def by (intro adds_flags_intros)
  show "adds_flags (lifting_cost_ctx total_operating_costs total_production)"
    unfolding lifting_cost_ctx_def by (intro adds_flags_intros)
  show "adds_flags (netback_ctx oil_price royalties transportation operating_costs)"
    unfolding netback_ctx_def by (intro adds_flags_intros)
  show "adds_flags (breakeven_price_ctx total_costs total_production)"
    unfolding breakeven_price_ctx_def by (intro adds_flags_intros)
  show "adds_flags (operating_netback_margin_ctx netback_value oil_price)"
    unfolding operating_netback_margin_ctx_def by (intro adds_flags_intros)
  show "adds_flags (capital_efficiency_ctx production_added capital_expenditure)"
    unfolding capital_efficiency_ctx_def by (intro adds_flags_intros)
  show "adds_flags (recycle_ratio_ctx operating_netback fd_cost)"
    unfolding recycle_ratio_ctx_def by (intro adds_flags_intros)
qed (simp_all only: finding_development_cost_ctx_result reserve_replacement_ratio_ctx_result
      reserve_life_index_ctx_result reserves_per_share_ctx_result lifting_cost_ctx_result
      netback_ctx_result breakeven_price_ctx_result operating_netback_margin_ctx_result
      capital_efficiency_ctx_result recycle_ratio_ctx_result)

text \<open>
  C7: in every formula function a violated precondition raises the error before any
  arithmetic on the inputs: the call ends in the invalid-input error for the first
  parameter that is not positive, and the context is as the call found it, so that no
  addition, division or multiplication has recorded a signal. In particular the division
  by a non-positive denominator is never attempted: no call ends in DivisionByZero or in
  the InvalidOperation of \<open>0 / 0\<close>.
\<close>

theorem C7_error_before_arithmetic:
  "(dval reserves_added \<le> 0 \<longrightarrow>
      finding_development_cost_ctx exploration_costs development_costs reserves_added flags
        = (Inl (InvalidInputError ''reserves_added'' reserves_added), flags))
   \<and> (dval production \<le> 0 \<longrightarrow>
      reserve_replacement_ratio_ctx a1 production flags
        = (Inl (InvalidInputError ''production'' production), flags))
   \<and> (dval proved_reserves \<le> 0 \<longrightarrow>
      reserve_life_index_ctx proved_reserves annual_production flags
        = (Inl (InvalidInputError ''proved_reserves'' proved_reserves), flags))
   \<and> (0 < dval proved_reserves \<and> dval annual_production \<le> 0 \<longrightarrow>
      reserve_life_index_ctx proved_reserves annual_production flags
        = (Inl (InvalidInputError ''annual_production'' annual_production), flags))
   \<and> (dval total_proved_reserves \<le> 0 \<longrightarrow>
      reserves_per_share_ctx total_proved_reserves shares_outstanding flags
        = (Inl (InvalidInputError ''total_proved_reserves'' total_proved_reserves), flags))
   \<and> (0 < dval total_proved_reserves \<and> dval shares_outstanding \<le> 0 \<longrightarrow>
      reserves_per_share_ctx total_proved_reserves shares_outstanding flags
        = (Inl (InvalidInputError ''shares_outstanding'' shares_outstanding), flags))
   \<and> (dval total_production \<le> 0 \<longrightarrow>
      lifting_cost_ctx a2 total_production flags
        = (Inl (InvalidInputError ''total_production'' total_production), flags))
   \<and> (dval total_production \<le> 0 \<longrightarrow>
      breakeven_price_ctx a3 total_production flags
        = (Inl (InvalidInputError ''total_production'' total_production), flags))
   \<and> (dval oil_price \<le> 0 \<longrightarrow>
      operating_netback_margin_ctx a4 oil_price flags
        = (Inl (InvalidInputError ''oil_price'' oil_price), flags))
   \<and> (dval production_added \<le> 0 \<longrightarrow>
      capital_efficiency_ctx production_added capital_expenditure flags
        = (Inl (InvalidInputError ''production_added'' production_added), flags))
   \<and> (0 < dval production_added \<and> dval capital_expenditure \<le> 0 \<longrightarrow>
      capital_efficiency_ctx production_added capital_expenditure flags
        = (Inl (InvalidInputError ''capital_expenditure'' capital_expenditure), flags))
   \<and> (dval fd_cost \<le> 0 \<longrightarrow>
      recycle_ratio_ctx a5 fd_cost flags
        = (Inl (InvalidInputError ''finding_development_cost'' fd_cost), flags))
   \<and> fst (finding_development_cost_ctx exploration_costs development_costs reserves_added flags)
        \<notin> {Inl (Signal DivisionByZero), Inl (Signal InvalidOperation)}
   \<and> fst (reserve_replacement_ratio_ctx a1 production flags)
        \<notin> {Inl (Signal DivisionByZero), Inl (Signal InvalidOperation)}
   \<and> fst (reserve_life_index_ctx proved_reserves annual_production flags)
        \<notin> {Inl (Signal DivisionByZero), Inl (Signal InvalidOperation)}
   \<and> fst (reserves_per_share_ctx total_proved_reserves shares_outstanding flags)
        \<notin> {Inl (Signal DivisionByZero), Inl (Signal InvalidOperation)}
   \<and> fst (lifting_cost_ctx a2 total_production flags)
        \<notin> {Inl (Signal DivisionByZero), Inl (Signal InvalidOperation)}
   \<and> fst (breakeven_price_ctx a3 total_production flags)
        \<notin> {Inl (Signal DivisionByZero), Inl (Signal InvalidOperation)}
   \<and> fst (operating_netback_margin_ctx a4 oil_price flags)
        \<notin> {Inl (Signal DivisionByZero), Inl (Signal InvalidOperation)}
   \<and> fst (capital_efficiency_ctx production_added capital_expenditure flags)
        \<notin> {Inl (Signal DivisionByZero), Inl (Signal InvalidOperation)}
   \<and> fst (recycle_ratio_ctx a5 fd_cost flags)
        \<notin> {Inl (Signal DivisionByZero), Inl (Signal InvalidOperation)}"
proof (intro conjI impI)
  show "fst (finding_development_cost_ctx exploration_costs development_costs reserves_added flags)
        \<notin> {Inl (Signal DivisionByZero), Inl (Signal InvalidOperation)}"
    unfolding finding_development_cost_ctx_result by (auto dest: fdc_signal)
  show "fst (reserve_replacement_ratio_ctx a1 production flags)
        \<notin> {Inl (Signal DivisionByZero), Inl (Signal InvalidOperation)}"
    unfolding reserve_replacement_ratio_ctx_result reserve_replacement_ratio_def
    by (auto dest: one_guard_signal)
  show "fst (reserve_life_index_ctx proved_reserves annual_production flags)
        \<notin> {Inl (Signal DivisionByZero), Inl (Signal InvalidOperation)}"
    unfolding reserve_life_index_ctx_result reserve_life_index_def
    by (auto dest: two_guards_signal)
  show "fst (reserves_per_share_ctx total_proved_reserves shares_outstanding flags)
        \<notin> {Inl (Signal DivisionByZero), Inl (Signal InvalidOperation)}"
    unfolding reserves_per_share_ctx_result reserves_per_share_def
    by (auto dest: two_guards_signal)
  show "fst (lifting_cost_ctx a2 total_production flags)
        \<notin> {Inl (Signal DivisionByZero), Inl (Signal InvalidOperation)}"
    unfolding lifting_cost_ctx_result lifting_cost_def by (auto dest: one_guard_signal)
  show "fst (breakeven_price_ctx a3 total_production flags)
        \<notin> {Inl (Signal DivisionByZero), Inl (Signal InvalidOperation)}"
    unfolding breakeven_price_ctx_result breakeven_price_def by (auto dest: one_guard_signal)
  show "fst (operating_netback_margin_ctx a4 oil_price flags)
        \<notin> {Inl (Signal DivisionByZero), Inl (Signal InvalidOperation)}"
    unfolding operating_netback_margin_ctx_result by (auto dest: onm_signal)
  show "fst (capital_efficiency_ctx production_added capital_expenditure flags)
        \<notin> {Inl (Signal DivisionByZero), Inl (Signal InvalidOperation)}"
    unfolding capital_efficiency_ctx_result capital_efficiency_def
    by (auto dest: two_guards_signal)
  show "fst (recycle_ratio_ctx a5 fd_cost flags)
        \<notin> {Inl (Signal DivisionByZero), Inl (Signal InvalidOperation)}"
    unfolding recycle_ratio_ctx_result recycle_ratio_def by (auto dest: one_guard_signal)
qed (simp_all add: finding_development_cost_ctx_def reserve_replacement_ratio_ctx_def
      reserve_life_index_ctx_def reserves_per_share_ctx_def lifting_cost_ctx_def
      breakeven_price_ctx_def operating_netback_margin_ctx_def capital_efficiency_ctx_def
      recycle_ratio_ctx_def ctx_guard_fail ctx_guard_pass)

theorem C7_witness:
  "lifting_cost_ctx (Decimal False 5 0) (Decimal False 0 0) {}
     = (Inl (InvalidInputError ''total_production'' (Decimal False 0 0)), {})
   \<and> truediv_ctx (Decimal False 5 0) (Decimal False 0 0) {}
     = (Inl (Signal DivisionByZero), {DivisionByZero})
   \<and> recycle_ratio_ctx (Decimal False 1 0) (Decimal True 3 0) {}
     = (Inl (InvalidInputError ''finding_development_cost'' (Decimal True 3 0)), {})
   \<and> truediv_ctx (Decimal False 1 0) (Decimal True 3 0) {}
     = (Inr (Decimal True 3333333333333333333333333333 (- 28)), {Inexact, Rounded})
   \<and> capital_efficiency_ctx (Decimal False 1 0) (Decimal False 0 0) {Rounded}
     = (Inl (InvalidInputError ''capital_expenditure'' (Decimal False 0 0)), {Rounded})"
  using
    C7_error_before_arithmetic
      [where total_production = "Decimal False 0 0" and ?a2.0 = "Decimal False 5 0"
         and fd_cost = "Decimal True 3 0" and ?a5.0 = "Decimal False 1 0" and flags = "{}"]
    C7_error_before_arithmetic
      [where production_added = "Decimal False 1 0" and capital_expenditure = "Decimal False 0 0"
         and flags = "{Rounded}"]
    truediv_ctx_by_zero truediv_ctx_by_negative
  by (simp add: dval_Decimal)

end
